theory Spec2Isabelle
  imports Main "HOL-Library.Word"
begin

unbundle bit_operations_syntax

section \<open>SHA-256, as called through Node's crypto module\<close>

text \<open>
  \<^verbatim>\<open>crypto.createHash('sha256').update(longUrl).digest('hex')\<close> (server.js, line 50)
  feeds the UTF-8 bytes of the string to SHA-256 and renders the 32-byte digest as 64
  lower-case hexadecimal characters. The digest is written out here following
  FIPS 180-4: 32-bit words, padding to a multiple of 64 bytes, 64 rounds per block.
  A \<^typ>\<open>string\<close> stands for the byte sequence of the JavaScript string.
\<close>

type_synonym u32 = "32 word"
type_synonym byte = "8 word"

definition rotr :: "nat \<Rightarrow> u32 \<Rightarrow> u32" where
  "rotr n x = (drop_bit n x) OR (push_bit (32 - n) x)"

definition Ch :: "u32 \<Rightarrow> u32 \<Rightarrow> u32 \<Rightarrow> u32" where
  "Ch x y z = (x AND y) XOR (NOT x AND z)"

definition Maj :: "u32 \<Rightarrow> u32 \<Rightarrow> u32 \<Rightarrow> u32" where
  "Maj x y z = (x AND y) XOR (x AND z) XOR (y AND z)"

definition bsig0 :: "u32 \<Rightarrow> u32" where
  "bsig0 x = rotr 2 x XOR rotr 13 x XOR rotr 22 x"

definition bsig1 :: "u32 \<Rightarrow> u32" where
  "bsig1 x = rotr 6 x XOR rotr 11 x XOR rotr 25 x"

definition ssig0 :: "u32 \<Rightarrow> u32" where
  "ssig0 x = rotr 7 x XOR rotr 18 x XOR drop_bit 3 x"

definition ssig1 :: "u32 \<Rightarrow> u32" where
  "ssig1 x = rotr 17 x XOR rotr 19 x XOR drop_bit 10 x"

text \<open>
  The constants of the standard are bits of irrational numbers: the round constants are
  the first 32 bits of the fractional parts of the cube roots of the first 64 primes, the
  initial hash value those of the square roots of the first 8 primes. \<open>iroot k b x r\<close>
  finds \<open>\<lfloor>x\<^bsup>1/k\<^esup>\<rfloor>\<close> bit by bit, from bit \<open>b - 1\<close> down, starting from \<open>r\<close>; the integer
  part of the root is cut off by the conversion to 32 bits.
\<close>

fun iroot :: "nat \<Rightarrow> nat \<Rightarrow> int \<Rightarrow> int \<Rightarrow> int" where
  "iroot k 0 x r = r"
| "iroot k (Suc b) x r = (let c = r + 2 ^ b in iroot k b x (if c ^ k \<le> x then c else r))"

definition frac_bits :: "nat \<Rightarrow> int \<Rightarrow> u32" where
  "frac_bits k p = word_of_int (iroot k 35 (p * 2 ^ (32 * k)) 0)"

definition primes64 :: "int list" where
  "primes64 = [2, 3, 5, 7, 11, 13, 17, 19, 23, 29, 31, 37, 41, 43, 47, 53, 59, 61, 67, 71,
     73, 79, 83, 89, 97, 101, 103, 107, 109, 113, 127, 131, 137, 139, 149, 151, 157, 163,
     167, 173, 179, 181, 191, 193, 197, 199, 211, 223, 227, 229, 233, 239, 241, 251, 257,
     263, 269, 271, 277, 281, 283, 293, 307, 311]"

definition K256 :: "u32 list" where
  "K256 = map (frac_bits 3) primes64"

definition H256 :: "u32 list" where
  "H256 = map (frac_bits 2) (take 8 primes64)"

text \<open>One round on the working variables \<open>a \<dots> h\<close>, with round constant \<open>k\<close> and
  schedule word \<open>w\<close>.\<close>

fun sha_round :: "u32 \<Rightarrow> u32 \<Rightarrow> u32 list \<Rightarrow> u32 list" where
  "sha_round k w [a, b, c, d, e, f, g, h] =
     (let t1 = h + bsig1 e + Ch e f g + k + w;
          t2 = bsig0 a + Maj a b c
      in [t1 + t2, a, b, c, d + t1, e, f, g])"
| "sha_round k w vs = vs"

text \<open>The message schedule is kept as a window of the last sixteen words: the head is the
  word of the current round, and each round appends the word sixteen rounds ahead.\<close>

definition next_w :: "u32 list \<Rightarrow> u32" where
  "next_w ws = ssig1 (ws ! 14) + ws ! 9 + ssig0 (ws ! 1) + ws ! 0"

fun sha_rounds :: "u32 list \<Rightarrow> u32 list \<Rightarrow> u32 list \<Rightarrow> u32 list" where
  "sha_rounds [] ws vs = vs"
| "sha_rounds (k # ks) ws vs = sha_rounds ks (tl ws @ [next_w ws]) (sha_round k (hd ws) vs)"

definition compress :: "u32 list \<Rightarrow> u32 list \<Rightarrow> u32 list" where
  "compress hs ws = map2 (+) hs (sha_rounds K256 ws hs)"

definition be32 :: "byte list \<Rightarrow> u32" where
  "be32 bs = foldl (\<lambda>acc b. push_bit 8 acc OR ucast b) 0 bs"

fun words_of :: "nat \<Rightarrow> byte list \<Rightarrow> u32 list" where
  "words_of 0 bs = []"
| "words_of (Suc n) bs = be32 (take 4 bs) # words_of n (drop 4 bs)"

fun sha_blocks :: "nat \<Rightarrow> u32 list \<Rightarrow> byte list \<Rightarrow> u32 list" where
  "sha_blocks 0 hs bs = hs"
| "sha_blocks (Suc n) hs bs =
     sha_blocks n (compress hs (words_of 16 (take 64 bs))) (drop 64 bs)"

definition be_bytes32 :: "u32 \<Rightarrow> byte list" where
  "be_bytes32 w = map (\<lambda>n. ucast (drop_bit n w)) [24, 16, 8, 0]"

definition be_bytes64 :: "64 word \<Rightarrow> byte list" where
  "be_bytes64 w = map (\<lambda>n. ucast (drop_bit n w)) [56, 48, 40, 32, 24, 16, 8, 0]"

text \<open>Padding: the byte \<open>0x80\<close>, zero bytes up to 56 modulo 64, then the bit length of the
  message as a 64-bit big-endian number.\<close>

definition pad :: "byte list \<Rightarrow> byte list" where
  "pad m = m @ [0x80] @ replicate ((119 - length m mod 64) mod 64) 0
             @ be_bytes64 (8 * of_nat (length m))"

definition sha256 :: "byte list \<Rightarrow> byte list" where
  "sha256 m = (let p = pad m in
     concat (map be_bytes32 (sha_blocks (length p div 64) H256 p)))"

definition hex_digit :: "nat \<Rightarrow> char" where
  "hex_digit n = ''0123456789abcdef'' ! n"

definition hex :: "byte list \<Rightarrow> string" where
  "hex bs = concat (map (\<lambda>b. [hex_digit (unat (drop_bit 4 b)), hex_digit (unat (b AND 15))]) bs)"

definition utf8 :: "string \<Rightarrow> byte list" where
  "utf8 s = map of_char s"

definition sha256_hex :: "string \<Rightarrow> string" where
  "sha256_hex s = hex (sha256 (utf8 s))"

section \<open>Configuration (server.js, lines 15--17)\<close>

definition TTL_DAYS :: int where
  "TTL_DAYS = 365"

definition SHORT_URL_LENGTH :: nat where
  "SHORT_URL_LENGTH = 16"

text \<open>\<^verbatim>\<open>String.prototype.substring(start, end)\<close> for \<open>start \<le> end\<close>; the digest is
  ASCII, so code units and bytes coincide.\<close>

definition substring :: "string \<Rightarrow> nat \<Rightarrow> nat \<Rightarrow> string" where
  "substring s start end = take (end - start) (drop start s)"

text \<open>Lines 50--51 of the creation handler:
  \<^verbatim>\<open>hash = crypto.createHash('sha256').update(longUrl).digest('hex');
  shortUrl = hash.substring(0, SHORT_URL_LENGTH)\<close>.\<close>

definition short_code :: "string \<Rightarrow> string" where
  "short_code longUrl = (let hash = sha256_hex longUrl in substring hash 0 SHORT_URL_LENGTH)"

section \<open>JSON values and the request body\<close>

text \<open>The body of a request is the object \<^verbatim>\<open>express.json()\<close> has parsed. A JSON number is
  kept as an integer: the handlers only ask whether it is zero.\<close>

datatype json = JUndefined | JNull | JBool bool | JNumber int | JString string
  | JArray "json list" | JObject "(string \<times> json) list"

text \<open>JavaScript's \<^verbatim>\<open>ToBoolean\<close>, which decides \<^verbatim>\<open>if (!longUrl)\<close>.\<close>

fun truthy :: "json \<Rightarrow> bool" where
  "truthy JUndefined = False"
| "truthy JNull = False"
| "truthy (JBool b) = b"
| "truthy (JNumber n) = (n \<noteq> 0)"
| "truthy (JString s) = (s \<noteq> [])"
| "truthy (JArray xs) = True"
| "truthy (JObject kvs) = True"

text \<open>Reading a property of an object: \<^verbatim>\<open>undefined\<close> when it is absent.\<close>

definition get_prop :: "(string \<times> json) list \<Rightarrow> string \<Rightarrow> json" where
  "get_prop obj k = (case map_of obj k of None \<Rightarrow> JUndefined | Some v \<Rightarrow> v)"

definition num_or_undefined :: "int option \<Rightarrow> json" where
  "num_or_undefined v = (case v of None \<Rightarrow> JUndefined | Some n \<Rightarrow> JNumber n)"

section \<open>The table \<^verbatim>\<open>URLShortenerMappings\<close> and the DAX cache\<close>

text \<open>
  An item of the table. \<open>short_url\<close> is the primary key, so every item has it; DynamoDB
  has no schema for the other attributes, and an item may lack them (an \<^verbatim>\<open>UpdateItem\<close>
  on an absent key creates an item that holds the key and the counter only).
  \<open>created_at\<close> keeps the instant in milliseconds whose ISO-8601 text the code stores.
\<close>

record item =
  short_url :: string
  long_url :: "string option"
  ttl :: "int option"
  created_at :: "int option"
  access_count :: "int option"

text \<open>The shared state: the table, in some fixed order, and the item cache of DAX
  (short code to cached item).\<close>

record state =
  table :: "item list"
  dax :: "(string \<times> item) list"

text \<open>Everything that can be thrown inside the handlers' \<^verbatim>\<open>try\<close> blocks.\<close>

datatype error = ERR_INVALID_ARG_TYPE | ConditionalCheckFailedException | ServiceUnavailable

text \<open>Whether a call to the store or to the cache is rejected for a reason outside the
  program (network, throttling, time-out): one flag per call site.\<close>

record faults =
  query_fails :: bool
  put_fails :: bool
  get_fails :: bool
  update_fails :: bool

definition no_faults :: faults where
  "no_faults = \<lparr>query_fails = False, put_fails = False, get_fails = False, update_fails = False\<rparr>"

text \<open>Point lookup by primary key.\<close>

definition get_item :: "item list \<Rightarrow> string \<Rightarrow> item option" where
  "get_item t k = find (\<lambda>i. short_url i = k) t"

text \<open>\<^verbatim>\<open>dynamodb.query\<close> on the index \<^verbatim>\<open>LongURLIndex\<close> with
  \<^verbatim>\<open>KeyConditionExpression: 'long_url = :url'\<close> (lines 57--64). No filter on \<open>ttl\<close> is given.
  The index holds the items that have a \<open>long_url\<close> and is read as up to date with the
  table.\<close>

definition dynamodb_query :: "faults \<Rightarrow> item list \<Rightarrow> string \<Rightarrow> error + item list" where
  "dynamodb_query f t url =
     (if query_fails f then Inl ServiceUnavailable
      else Inr (filter (\<lambda>i. long_url i = Some url) t))"

text \<open>\<^verbatim>\<open>dynamodb.put\<close> with \<^verbatim>\<open>ConditionExpression: 'attribute_not_exists(short_url)'\<close>
  (lines 76--86): rejected when an item with the same primary key is there.\<close>

definition dynamodb_put :: "faults \<Rightarrow> item list \<Rightarrow> item \<Rightarrow> error + item list" where
  "dynamodb_put f t Item =
     (if put_fails f then Inl ServiceUnavailable
      else case get_item t (short_url Item) of
        Some old \<Rightarrow> Inl ConditionalCheckFailedException
      | None \<Rightarrow> Inr (t @ [Item]))"

text \<open>\<^verbatim>\<open>dynamodb.update\<close> with \<^verbatim>\<open>UpdateExpression: 'ADD access_count :inc'\<close>
  (lines 171--179). \<^verbatim>\<open>ADD\<close> counts an absent attribute as 0, and the update of an absent
  key creates the item.\<close>

definition add_count :: "int \<Rightarrow> item \<Rightarrow> item" where
  "add_count inc i =
     i\<lparr>access_count := Some ((case access_count i of None \<Rightarrow> 0 | Some c \<Rightarrow> c) + inc)\<rparr>"

definition dynamodb_update :: "item list \<Rightarrow> string \<Rightarrow> int \<Rightarrow> item list" where
  "dynamodb_update t k inc =
     (case get_item t k of
        Some old \<Rightarrow> map (\<lambda>i. if short_url i = k then add_count inc i else i) t
      | None \<Rightarrow> t @ [\<lparr>short_url = k, long_url = None, ttl = None, created_at = None,
                       access_count = Some inc\<rparr>])"

text \<open>\<^verbatim>\<open>daxClient.get\<close> (lines 159--164): a read-through cache of items. A cached item is
  returned as it is; otherwise the table is read and a found item is kept in the cache.
  A miss is not kept, and the handlers never remove an entry.\<close>

definition daxClient_get :: "faults \<Rightarrow> state \<Rightarrow> string \<Rightarrow> error + (item option \<times> state)" where
  "daxClient_get f \<sigma> k =
     (if get_fails f then Inl ServiceUnavailable
      else case map_of (dax \<sigma>) k of
        Some cached \<Rightarrow> Inr (Some cached, \<sigma>)
      | None \<Rightarrow>
         (case get_item (table \<sigma>) k of
            None \<Rightarrow> Inr (None, \<sigma>)
          | Some i \<Rightarrow> Inr (Some i, \<sigma>\<lparr>dax := (k, i) # dax \<sigma>\<rparr>)))"

section \<open>Responses and the outcome of a handler\<close>

text \<open>\<open>Json code body\<close> is \<^verbatim>\<open>res.status(code).json(body)\<close>, and \<open>Redirect code target\<close> is
  \<^verbatim>\<open>res.redirect(code, target)\<close> with the target the handler passes: the \<open>long_url\<close> of the
  item, absent when the item has none. The \<open>Location\<close> header that Express writes for the
  target is \<open>location_header\<close>, further down.\<close>

datatype response = Json nat json | Redirect nat "string option"

fun status :: "response \<Rightarrow> nat" where
  "status (Json code b) = code"
| "status (Redirect code loc) = code"

text \<open>A request to the store that the handler has sent without awaiting it:
  \<open>Update k inc\<close> is \<^verbatim>\<open>ADD access_count inc\<close> on key \<open>k\<close>.\<close>

datatype request = Update string int

text \<open>What a handler leaves behind when its synchronous code has run: the response it
  has sent, the shared state, the lines written with \<^verbatim>\<open>console.error\<close>, and the requests
  still in flight.\<close>

record outcome =
  response :: response
  after :: state
  console :: "string list"
  detached :: "request list"

definition respond :: "state \<Rightarrow> response \<Rightarrow> outcome" where
  "respond \<sigma> r = \<lparr>response = r, after = \<sigma>, console = [], detached = []\<rparr>"

text \<open>The \<^verbatim>\<open>catch\<close> blocks (lines 93--96 and 186--189): log, then answer 500.\<close>

definition caught :: "string \<Rightarrow> state \<Rightarrow> outcome" where
  "caught msg \<sigma> =
     \<lparr>response = Json 500 (JObject [(''error'', JString ''Internal server error'')]),
      after = \<sigma>, console = [msg], detached = []\<rparr>"

section \<open>URL creation: \<^verbatim>\<open>app.post('/url', \<dots>)\<close> (lines 42--97)\<close>

text \<open>Lines 75--92: the conditional write and the answer 201. \<open>created\<close> is the clock read by
  \<^verbatim>\<open>new Date()\<close>. The store \<open>\<sigma>\<close> is the one the write meets.\<close>

definition store_new :: "faults \<Rightarrow> int \<Rightarrow> string \<Rightarrow> string \<Rightarrow> int \<Rightarrow> state \<Rightarrow> outcome" where
  "store_new f created longUrl shortUrl ttl\<^sub>n \<sigma> =
     (case dynamodb_put f (table \<sigma>)
             \<lparr>short_url = shortUrl, long_url = Some longUrl, ttl = Some ttl\<^sub>n,
              created_at = Some created, access_count = Some 0\<rparr> of
        Inl e \<Rightarrow> caught ''Error creating short URL:'' \<sigma>
      | Inr t' \<Rightarrow>
          respond (\<sigma>\<lparr>table := t'\<rparr>)
            (Json 201 (JObject [(''shortUrl'', JString shortUrl), (''longUrl'', JString longUrl),
                                (''ttl'', JNumber ttl\<^sub>n)])))"

text \<open>
  The handler. \<open>now\<close> is \<^verbatim>\<open>Date.now()\<close> in milliseconds (line 54), \<open>created\<close> the later
  reading of line 82. The handler is suspended at each \<^verbatim>\<open>await\<close>; \<open>others\<close> is what the
  requests served meanwhile do to the shared state between the answer to the query and
  the arrival of the write. \<^verbatim>\<open>hash.update\<close> throws for anything but a string.
  (The legacy route of lines 100--151 repeats lines 50--92 on the decoded path parameter,
  without the check of line 46.)
\<close>

definition post_url_among ::
  "(state \<Rightarrow> state) \<Rightarrow> faults \<Rightarrow> int \<Rightarrow> int \<Rightarrow> (string \<times> json) list \<Rightarrow> state \<Rightarrow> outcome" where
  "post_url_among others f now created body \<sigma> =
     (let longUrl = get_prop body ''longUrl'' in
      if \<not> truthy longUrl
      then respond \<sigma> (Json 400 (JObject [(''error'', JString ''longUrl is required'')]))
      else case longUrl of
        JString url \<Rightarrow>
          (let shortUrl = short_code url;
               ttl\<^sub>n = now div 1000 + TTL_DAYS * 24 * 60 * 60
           in case dynamodb_query f (table \<sigma>) url of
                Inl e \<Rightarrow> caught ''Error creating short URL:'' \<sigma>
              | Inr Items \<Rightarrow>
                 (case Items of
                    existing # rest \<Rightarrow>
                      respond \<sigma>
                        (Json 200 (JObject [(''shortUrl'', JString (short_url existing)),
                                            (''longUrl'', longUrl),
                                            (''ttl'', num_or_undefined (ttl existing))]))
                  | [] \<Rightarrow> store_new f created url shortUrl ttl\<^sub>n (others \<sigma>)))
      | other \<Rightarrow> caught ''Error creating short URL:'' \<sigma>)"

text \<open>A request served with no other request in between.\<close>

definition post_url :: "faults \<Rightarrow> int \<Rightarrow> int \<Rightarrow> (string \<times> json) list \<Rightarrow> state \<Rightarrow> outcome" where
  "post_url = post_url_among (\<lambda>\<sigma>. \<sigma>)"

section \<open>URL retrieval: \<^verbatim>\<open>app.get('/url/:shortUrl', \<dots>)\<close> (lines 154--190)\<close>

text \<open>The handler reads no clock and looks at no \<open>ttl\<close>. The update of the counter is
  sent and not awaited: the handler goes on to \<^verbatim>\<open>res.redirect\<close> at once.\<close>

definition get_url :: "faults \<Rightarrow> string \<Rightarrow> state \<Rightarrow> outcome" where
  "get_url f shortUrl \<sigma> =
     (case daxClient_get f \<sigma> shortUrl of
        Inl e \<Rightarrow> caught ''Error retrieving URL:'' \<sigma>
      | Inr (None, \<sigma>') \<Rightarrow>
          respond \<sigma>' (Json 404 (JObject [(''error'', JString ''URL not found'')]))
      | Inr (Some Item, \<sigma>') \<Rightarrow>
          \<lparr>response = Redirect 301 (long_url Item), after = \<sigma>', console = [],
           detached = [Update shortUrl 1]\<rparr>)"

text \<open>The promise of a detached request settles later: the store applies the update, or
  the \<^verbatim>\<open>.catch\<close> of lines 180--182 logs the rejection. The cache is not touched.\<close>

fun settle :: "faults \<Rightarrow> request \<Rightarrow> state \<times> string list \<Rightarrow> state \<times> string list" where
  "settle f (Update k inc) (\<sigma>, logged) =
     (if update_fails f then (\<sigma>, logged @ [''Error updating access count:''])
      else (\<sigma>\<lparr>table := dynamodb_update (table \<sigma>) k inc\<rparr>, logged))"

text \<open>The state and the log once every detached request of an outcome has settled.\<close>

definition settled :: "faults \<Rightarrow> outcome \<Rightarrow> state \<times> string list" where
  "settled f out = foldl (\<lambda>acc r. settle f r acc) (after out, console out) (detached out)"

text \<open>The store's rule of expiry: an item is due for deletion once the clock (in seconds)
  has passed its \<open>ttl\<close>. The deletion itself is done by the store, at a time of its choosing.\<close>

definition expired :: "int \<Rightarrow> item \<Rightarrow> bool" where
  "expired now_s i = (case ttl i of None \<Rightarrow> False | Some e \<Rightarrow> e < now_s)"

section \<open>Invariants of the shared state\<close>

text \<open>The records the index \<^verbatim>\<open>LongURLIndex\<close> holds for a long URL.\<close>

definition records_for :: "string \<Rightarrow> item list \<Rightarrow> item list" where
  "records_for url t = filter (\<lambda>i. long_url i = Some url) t"

text \<open>
  What the writes of this program keep true of the table: the primary key is unique; the
  key attribute of the index is a non-empty string (DynamoDB refuses an empty key
  attribute, and the handler refuses an empty \<open>longUrl\<close>); and an item that has a
  \<open>long_url\<close> sits under the short code of that URL.
\<close>

definition row_ok :: "item \<Rightarrow> bool" where
  "row_ok i = (case long_url i of None \<Rightarrow> True
               | Some u \<Rightarrow> u \<noteq> [] \<and> short_url i = short_code u)"

definition table_inv :: "item list \<Rightarrow> bool" where
  "table_inv t = (distinct (map short_url t) \<and> list_all row_ok t)"

text \<open>The cache agrees with the table: a cached item is still in the table and carries the
  same \<open>long_url\<close> (its counter may be stale, since updates go past the cache).\<close>

definition cached_ok :: "item list \<Rightarrow> string \<times> item \<Rightarrow> bool" where
  "cached_ok t e = (case get_item t (fst e) of None \<Rightarrow> False
                    | Some i \<Rightarrow> long_url i = long_url (snd e))"

definition cache_coherent :: "state \<Rightarrow> bool" where
  "cache_coherent \<sigma> = list_all (cached_ok (table \<sigma>)) (dax \<sigma>)"

text \<open>The states the two handlers produce from the empty store, detached updates settled,
  as long as the store deletes nothing.\<close>

inductive reachable :: "state \<Rightarrow> bool" where
  start: "reachable \<lparr>table = [], dax = []\<rparr>"
| create: "reachable \<sigma> \<Longrightarrow> reachable (after (post_url f now created body \<sigma>))"
| resolve: "reachable \<sigma> \<Longrightarrow> reachable (fst (settled f' (get_url f code \<sigma>)))"

section \<open>The store's expiry\<close>

text \<open>What the store does on its own: at a clock reading \<open>now_s\<close> of its choosing it deletes
  items that are due then, those it has \<open>chosen\<close>. The cache is not told.\<close>

definition store_deletes :: "int \<Rightarrow> (item \<Rightarrow> bool) \<Rightarrow> state \<Rightarrow> state" where
  "store_deletes now_s chosen \<sigma> =
     \<sigma>\<lparr>table := filter (\<lambda>i. \<not> (expired now_s i \<and> chosen i)) (table \<sigma>)\<rparr>"



section \<open>The \<open>Location\<close> header: \<^verbatim>\<open>res.redirect\<close> of Express\<close>










section \<open>Reading a response, and the example states\<close>

text \<open>The \<open>shortUrl\<close> of a JSON answer.\<close>

definition shortUrl_of :: "response \<Rightarrow> string option" where
  "shortUrl_of r =
     (case r of
        Json c (JObject kvs) \<Rightarrow>
          (case map_of kvs ''shortUrl'' of Some (JString code) \<Rightarrow> Some code | _ \<Rightarrow> None)
      | _ \<Rightarrow> None)"

text \<open>The item written by lines 78--84 for \<open>url\<close> at the clock readings \<open>now\<close> and \<open>created\<close>.\<close>

definition new_item :: "string \<Rightarrow> int \<Rightarrow> int \<Rightarrow> item" where
  "new_item url now created =
     \<lparr>short_url = short_code url, long_url = Some url, ttl = Some (now div 1000 + 31536000),
      created_at = Some created, access_count = Some 0\<rparr>"

definition empty_store :: state where
  "empty_store = \<lparr>table = [], dax = []\<rparr>"

text \<open>A store holding one record, created in November 2022 and due in November 2023.\<close>

definition example_store :: state where
  "example_store =
     \<lparr>table = [\<lparr>short_url = short_code ''https://a.example/x'', long_url = Some ''https://a.example/x'',
                ttl = Some 1700000000, created_at = Some 1668464000000, access_count = Some 3\<rparr>],
      dax = []\<rparr>"

text \<open>A store in which the short code of one URL is taken by the record of another URL.\<close>

definition collision_store :: state where
  "collision_store =
     \<lparr>table = [\<lparr>short_url = short_code ''https://a.example/x'', long_url = Some ''https://b.example/y'',
                ttl = Some 1900000000, created_at = Some 1868464000000, access_count = Some 0\<rparr>],
      dax = []\<rparr>"

text \<open>A store whose only record was due on 14 November 2023 and has not been deleted.\<close>

definition expired_store :: state where
  "expired_store =
     \<lparr>table = [\<lparr>short_url = ''0123456789abcdef'', long_url = Some ''https://a.example/x'',
                ttl = Some 1700000000, created_at = Some 1668464000000, access_count = Some 3\<rparr>],
      dax = []\<rparr>"

text \<open>A store whose record is also in the cache, with an older counter.\<close>

definition cached_store :: state where
  "cached_store =
     \<lparr>table = [\<lparr>short_url = ''0123456789abcdef'', long_url = Some ''https://a.example/x'',
                ttl = Some 1900000000, created_at = Some 1868464000000, access_count = Some 3\<rparr>],
      dax = [(''0123456789abcdef'',
              \<lparr>short_url = ''0123456789abcdef'', long_url = Some ''https://a.example/x'',
                ttl = Some 1900000000, created_at = Some 1868464000000, access_count = Some 1\<rparr>)]\<rparr>"


section \<open>Facts about the digest\<close>

lemma length_sha_round: "length (sha_round k w vs) = length vs"
  by (induction k w vs rule: sha_round.induct) (simp_all add: Let_def)

lemma length_sha_rounds: "length (sha_rounds ks ws vs) = length vs"
  by (induction ks arbitrary: ws vs) (simp_all add: length_sha_round)

lemma length_compress: "length (compress hs ws) = length hs"
  by (simp add: compress_def length_sha_rounds)

lemma length_sha_blocks: "length (sha_blocks n hs bs) = length hs"
  by (induction n arbitrary: hs bs) (simp_all add: length_compress)

lemma length_concat_be_bytes32: "length (concat (map be_bytes32 ws)) = 4 * length ws"
  by (induction ws) (simp_all add: be_bytes32_def)

lemma length_sha256: "length (sha256 m) = 32"
  by (simp add: sha256_def Let_def length_concat_be_bytes32 length_sha_blocks H256_def
      primes64_def)

lemma length_hex: "length (hex bs) = 2 * length bs"
  by (induction bs) (simp_all add: hex_def)

lemma length_sha256_hex: "length (sha256_hex s) = 64"
  by (simp add: sha256_hex_def length_hex length_sha256)

lemma short_code_take: "short_code s = take 16 (sha256_hex s)"
  by (simp add: short_code_def substring_def SHORT_URL_LENGTH_def)

lemma length_short_code: "length (short_code s) = 16"
  by (simp add: short_code_take length_sha256_hex)

lemma hex_digit_in: "n < 16 \<Longrightarrow> hex_digit n \<in> set ''0123456789abcdef''"
  unfolding hex_digit_def by (rule nth_mem) simp

lemma hi_nibble: "unat (drop_bit 4 (b :: byte)) < 16"
proof -
  have "unat b < 256" using unsigned_less [of b, where ?'a = nat] by simp
  then show ?thesis unfolding unat_drop_bit_eq by (simp add: drop_bit_eq_div)
qed

lemma lo_nibble: "unat ((b :: byte) AND 15) < 16"
proof -
  have "unat (b AND 15) \<le> unat (15 :: byte)"
    by (rule word_and_le1 [THEN word_le_nat_alt [THEN iffD1]])
  then show ?thesis by simp
qed

lemma set_hex: "set (hex bs) \<subseteq> set ''0123456789abcdef''"
proof (induction bs)
  case Nil
  show ?case by (simp add: hex_def)
next
  case (Cons b bs)
  have "hex (b # bs) = [hex_digit (unat (drop_bit 4 b)), hex_digit (unat (b AND 15))] @ hex bs"
    by (simp add: hex_def)
  with Cons hex_digit_in [OF hi_nibble [of b]] hex_digit_in [OF lo_nibble [of b]]
  show ?case by simp
qed

lemma hex_short_code: "list_all (\<lambda>c. c \<in> set ''0123456789abcdef'') (short_code s)"
proof -
  have "set (take 16 (sha256_hex s)) \<subseteq> set (sha256_hex s)" by (rule set_take_subset)
  with set_hex [of "sha256 (utf8 s)"] show ?thesis
    unfolding short_code_take sha256_hex_def list_all_iff by blast
qed

text \<open>The definitions above against the examples of the standard: one block, two blocks.\<close>

lemma sha256_hex_abc:
  "sha256_hex ''abc'' = ''ba7816bf8f01cfea414140de5dae2223b00361a396177a9cb410ff61f20015ad''"
  by code_simp

lemma sha256_hex_two_blocks:
  "sha256_hex ''abcdbcdecdefdefgefghfghighijhijkijkljklmklmnlmnomnopnopq'' =
     ''248d6a61d20638b8e5c026930c3e6039a33ce45964ff2167f6ecedd419db06c1''"
  by code_simp

text \<open>The digest of the example URL, computed by rewriting with the definitions above.\<close>

lemma sha256_hex_example:
  "sha256_hex ''https://example.com/very/long/url'' =
     ''8ec596c44bd62b6b218fc45bed72fd6a1bdb732db2f19b7b840bd4dde5e35061''"
  by code_simp

lemma short_code_example: "short_code ''https://example.com/very/long/url'' = ''8ec596c44bd62b6b''"
  by (simp add: short_code_take sha256_hex_example)

text \<open>Sixteen characters cannot tell all URLs apart.\<close>

lemma short_code_collides:
  "\<exists>s t. s \<noteq> t \<and> s \<noteq> [] \<and> t \<noteq> [] \<and> short_code s = short_code t"
proof (rule ccontr)
  assume no: "\<not> ?thesis"
  then have "inj_on short_code (UNIV - {[]})"
    by (auto simp: inj_on_def)
  moreover have "short_code ` (UNIV - {[]}) \<subseteq> {xs. set xs \<subseteq> UNIV \<and> length xs = 16}"
    by (auto simp: length_short_code)
  then have "finite (short_code ` (UNIV - {[]}))"
    by (rule finite_subset) (rule finite_lists_length_eq, simp)
  ultimately have "finite (UNIV - {[] :: string})"
    by (rule finite_imageD [rotated])
  then have "finite (UNIV :: string set)" by simp
  then show False by (simp add: infinite_UNIV_listI)
qed

section \<open>Facts about the table\<close>

lemma get_item_SomeD: "get_item t k = Some i \<Longrightarrow> i \<in> set t \<and> short_url i = k"
  by (induction t) (auto simp: get_item_def split: if_splits)

lemma get_item_None_iff: "get_item t k = None \<longleftrightarrow> (\<forall>i\<in>set t. short_url i \<noteq> k)"
  unfolding get_item_def find_None_iff by blast

lemma get_item_append:
  "get_item (t @ [x]) k =
     (case get_item t k of Some i \<Rightarrow> Some i
      | None \<Rightarrow> if short_url x = k then Some x else None)"
  by (induction t) (simp_all add: get_item_def)


lemma get_item_map:
  "(\<And>i. short_url (g i) = short_url i) \<Longrightarrow> get_item (map g t) k = map_option g (get_item t k)"
  by (induction t) (simp_all add: get_item_def)

lemma short_url_add_count: "short_url (add_count inc i) = short_url i"
  by (simp add: add_count_def)

lemma long_url_add_count: "long_url (add_count inc i) = long_url i"
  by (simp add: add_count_def)

lemma get_item_update_other:
  "get_item (map (\<lambda>i. if short_url i = k then add_count inc i else i) t) k' =
     map_option (\<lambda>i. if short_url i = k then add_count inc i else i) (get_item t k')"
  by (rule get_item_map) (simp add: short_url_add_count)

lemma get_item_update_hit:
  "get_item t k = Some j \<Longrightarrow> get_item (dynamodb_update t k inc) k = Some (add_count inc j)"
  using get_item_SomeD [of t k j]
  by (simp add: dynamodb_update_def get_item_update_other)

lemma filter_eq_single: "distinct xs \<Longrightarrow> x \<in> set xs \<Longrightarrow> filter (\<lambda>y. y = x) xs = [x]"
  by (induction xs) (auto simp: filter_empty_conv)

lemma filter_unique:
  assumes "distinct (map f xs)" "x \<in> set xs" "P x"
    and same: "\<And>y. y \<in> set xs \<Longrightarrow> P y \<Longrightarrow> f y = f x"
  shows "filter P xs = [x]"
proof -
  from assms(1) have d: "distinct xs" and inj: "inj_on f (set xs)"
    by (simp_all add: distinct_map)
  have "filter P xs = filter (\<lambda>y. y = x) xs"
  proof (rule filter_cong [OF refl])
    fix y assume y: "y \<in> set xs"
    show "P y = (y = x)"
    proof
      assume "P y"
      from same [OF y this] inj y assms(2) show "y = x" by (simp add: inj_on_def)
    next
      assume "y = x"
      with assms(3) show "P y" by simp
    qed
  qed
  with filter_eq_single [OF d assms(2)] show ?thesis by simp
qed

lemma table_inv_code:
  assumes inv: "table_inv t" and i: "i \<in> set t" and u: "long_url i = Some u"
  shows "u \<noteq> [] \<and> short_url i = short_code u"
proof -
  from inv i have "row_ok i"
    by (simp add: table_inv_def list_all_iff)
  with u show ?thesis by (simp add: row_ok_def)
qed

lemma records_for_unique:
  assumes "table_inv t" "i \<in> set t" "long_url i = Some u"
  shows "records_for u t = [i]"
  unfolding records_for_def
proof (rule filter_unique [where f = short_url])
  show "distinct (map short_url t)" using assms(1) by (simp add: table_inv_def)
  show "i \<in> set t" by fact
  show "long_url i = Some u" by fact
next
  fix y assume "y \<in> set t" "long_url y = Some u"
  from table_inv_code [OF assms(1) this] table_inv_code [OF assms]
  show "short_url y = short_url i" by simp
qed



lemma get_item_filter_out:
  assumes "distinct (map short_url t)" "get_item t k = Some i" "\<not> P i"
  shows "get_item (filter P t) k = None"
proof -
  from assms(1) have inj: "inj_on short_url (set t)" by (simp add: distinct_map)
  from get_item_SomeD [OF assms(2)] have i: "i \<in> set t" "short_url i = k" by simp_all
  have "\<forall>j\<in>set (filter P t). short_url j \<noteq> k"
  proof
    fix j assume j: "j \<in> set (filter P t)"
    show "short_url j \<noteq> k"
    proof
      assume "short_url j = k"
      with i inj j have "j = i" by (simp add: inj_on_def)
      with j assms(3) show False by simp
    qed
  qed
  then show ?thesis by (simp only: get_item_None_iff)
qed

lemma ttl_add_count: "ttl (add_count inc i) = ttl i"
  by (simp add: add_count_def)

section \<open>The handlers, path by path\<close>

lemma after_respond: "after (respond \<sigma> r) = \<sigma>"
  by (simp add: respond_def)

lemma after_caught: "after (caught msg \<sigma>) = \<sigma>"
  by (simp add: caught_def)

lemma store_new_eq:
  "store_new f created url (short_code url) (now div 1000 + 31536000) \<sigma> =
     (if put_fails f \<or> get_item (table \<sigma>) (short_code url) \<noteq> None
      then caught ''Error creating short URL:'' \<sigma>
      else respond (\<sigma>\<lparr>table := table \<sigma> @ [new_item url now created]\<rparr>)
             (Json 201 (JObject [(''shortUrl'', JString (short_code url)), (''longUrl'', JString url),
                                 (''ttl'', JNumber (now div 1000 + 31536000))])))"
  by (auto simp: store_new_def dynamodb_put_def new_item_def split: option.splits)

lemma post_url_among_eq:
  assumes "get_prop body ''longUrl'' = JString url" "url \<noteq> []"
  shows "post_url_among others f now created body \<sigma> =
     (if query_fails f then caught ''Error creating short URL:'' \<sigma>
      else case records_for url (table \<sigma>) of
        existing # rest \<Rightarrow>
          respond \<sigma> (Json 200 (JObject [(''shortUrl'', JString (short_url existing)),
                                        (''longUrl'', JString url),
                                        (''ttl'', num_or_undefined (ttl existing))]))
      | [] \<Rightarrow> store_new f created url (short_code url) (now div 1000 + 31536000) (others \<sigma>))"
  using assms
  by (simp add: post_url_among_def Let_def dynamodb_query_def records_for_def TTL_DAYS_def
      split: list.splits)

lemma post_url_eq:
  assumes "get_prop body ''longUrl'' = JString url" "url \<noteq> []"
  shows "post_url f now created body \<sigma> =
     (if query_fails f then caught ''Error creating short URL:'' \<sigma>
      else case records_for url (table \<sigma>) of
        existing # rest \<Rightarrow>
          respond \<sigma> (Json 200 (JObject [(''shortUrl'', JString (short_url existing)),
                                        (''longUrl'', JString url),
                                        (''ttl'', num_or_undefined (ttl existing))]))
      | [] \<Rightarrow> store_new f created url (short_code url) (now div 1000 + 31536000) \<sigma>)"
  unfolding post_url_def by (rule post_url_among_eq [OF assms])

lemma post_url_falsy:
  "\<not> truthy (get_prop body ''longUrl'') \<Longrightarrow>
     post_url_among others f now created body \<sigma> =
       respond \<sigma> (Json 400 (JObject [(''error'', JString ''longUrl is required'')]))"
  by (simp add: post_url_among_def Let_def)

lemma post_url_not_string:
  "truthy (get_prop body ''longUrl'') \<Longrightarrow> \<forall>url. get_prop body ''longUrl'' \<noteq> JString url \<Longrightarrow>
     post_url_among others f now created body \<sigma> = caught ''Error creating short URL:'' \<sigma>"
  by (cases "get_prop body ''longUrl''") (simp_all add: post_url_among_def Let_def)

lemma get_url_eq:
  "get_url f k \<sigma> =
     (if get_fails f then caught ''Error retrieving URL:'' \<sigma>
      else case map_of (dax \<sigma>) k of
        Some cached \<Rightarrow>
          \<lparr>response = Redirect 301 (long_url cached), after = \<sigma>, console = [],
           detached = [Update k 1]\<rparr>
      | None \<Rightarrow>
         (case get_item (table \<sigma>) k of
            None \<Rightarrow> respond \<sigma> (Json 404 (JObject [(''error'', JString ''URL not found'')]))
          | Some i \<Rightarrow>
              \<lparr>response = Redirect 301 (long_url i), after = \<sigma>\<lparr>dax := (k, i) # dax \<sigma>\<rparr>,
               console = [], detached = [Update k 1]\<rparr>))"
  by (simp add: get_url_def daxClient_get_def split: option.splits)

lemma post_url_after_cases:
  "after (post_url f now created body \<sigma>) = \<sigma> \<or>
   (\<exists>url. url \<noteq> [] \<and> get_item (table \<sigma>) (short_code url) = None \<and>
      after (post_url f now created body \<sigma>) = \<sigma>\<lparr>table := table \<sigma> @ [new_item url now created]\<rparr>)"
proof (cases "truthy (get_prop body ''longUrl'')")
  case False
  then have "post_url f now created body \<sigma> =
      respond \<sigma> (Json 400 (JObject [(''error'', JString ''longUrl is required'')]))"
    unfolding post_url_def by (rule post_url_falsy)
  then show ?thesis by (simp only: after_respond simp_thms)
next
  case True
  show ?thesis
  proof (cases "\<exists>url. get_prop body ''longUrl'' = JString url")
    case False
    with True have "post_url f now created body \<sigma> = caught ''Error creating short URL:'' \<sigma>"
      unfolding post_url_def by (intro post_url_not_string) simp_all
    then show ?thesis by (simp only: after_caught simp_thms)
  next
    case True
    then obtain url where u: "get_prop body ''longUrl'' = JString url" by blast
    with \<open>truthy (get_prop body ''longUrl'')\<close> have ne: "url \<noteq> []" by simp
    note eq = post_url_eq [OF u ne, of f now created \<sigma>]
    show ?thesis
    proof (cases "query_fails f")
      case True
      with eq show ?thesis by (simp add: after_caught)
    next
      case nq: False
      show ?thesis
      proof (cases "records_for url (table \<sigma>)")
        case (Cons existing rest)
        with eq nq show ?thesis by (simp add: after_respond)
      next
        case Nil
        show ?thesis
        proof (cases "put_fails f \<or> get_item (table \<sigma>) (short_code url) \<noteq> None")
          case True
          with eq nq Nil show ?thesis by (simp add: store_new_eq after_caught)
        next
          case False
          with eq nq Nil have "after (post_url f now created body \<sigma>) =
              \<sigma>\<lparr>table := table \<sigma> @ [new_item url now created]\<rparr>"
            by (simp add: store_new_eq after_respond)
          moreover from False have "get_item (table \<sigma>) (short_code url) = None" by simp
          ultimately show ?thesis using ne by (intro disjI2 exI [of _ url] conjI)
        qed
      qed
    qed
  qed
qed

lemma get_url_after_cases:
  "after (get_url f code \<sigma>) = \<sigma> \<or>
   (\<exists>i. map_of (dax \<sigma>) code = None \<and> get_item (table \<sigma>) code = Some i \<and>
      after (get_url f code \<sigma>) = \<sigma>\<lparr>dax := (code, i) # dax \<sigma>\<rparr>)"
  by (simp add: get_url_eq caught_def respond_def split: option.splits)

lemma settled_get_url_cases:
  "fst (settled f' (get_url f code \<sigma>)) = after (get_url f code \<sigma>) \<or>
   fst (settled f' (get_url f code \<sigma>)) =
     (after (get_url f code \<sigma>))\<lparr>table := dynamodb_update (table (after (get_url f code \<sigma>))) code 1\<rparr>"
  by (simp add: get_url_eq settled_def caught_def respond_def split: option.splits)

section \<open>The invariants hold in every reachable state\<close>

lemma table_inv_append:
  assumes "table_inv t" "get_item t (short_url x) = None"
    and "row_ok x"
  shows "table_inv (t @ [x])"
proof -
  from assms(2) have "short_url x \<notin> short_url ` set t"
    by (auto simp: get_item_None_iff)
  with assms(1,3) show ?thesis by (simp add: table_inv_def)
qed

lemma table_inv_post_url:
  assumes "table_inv (table \<sigma>)"
  shows "table_inv (table (after (post_url f now created body \<sigma>)))"
  using post_url_after_cases [of f now created body \<sigma>]
proof (elim disjE exE conjE)
  assume "after (post_url f now created body \<sigma>) = \<sigma>"
  with assms show ?thesis by simp
next
  fix url
  assume u: "url \<noteq> []" "get_item (table \<sigma>) (short_code url) = None"
    and a: "after (post_url f now created body \<sigma>) = \<sigma>\<lparr>table := table \<sigma> @ [new_item url now created]\<rparr>"
  have "table_inv (table \<sigma> @ [new_item url now created])"
    by (rule table_inv_append [OF assms]) (simp_all add: new_item_def row_ok_def u)
  with a show ?thesis by simp
qed

lemma table_inv_update:
  assumes "table_inv t"
  shows "table_inv (dynamodb_update t k inc)"
proof (cases "get_item t k")
  case None
  have "table_inv (t @ [\<lparr>short_url = k, long_url = None, ttl = None, created_at = None,
                          access_count = Some inc\<rparr>])"
    by (rule table_inv_append [OF assms]) (simp_all add: None row_ok_def)
  with None show ?thesis by (simp add: dynamodb_update_def)
next
  case (Some old)
  have keys: "map short_url (map (\<lambda>i. if short_url i = k then add_count inc i else i) t)
                = map short_url t"
    by (simp add: short_url_add_count)
  have "row_ok (add_count inc i) = row_ok i" for i
    by (simp add: row_ok_def short_url_add_count long_url_add_count split: option.splits)
  then have "list_all row_ok (map (\<lambda>i. if short_url i = k then add_count inc i else i) t)
        = list_all row_ok t"
    by (induction t) simp_all
  with assms have "table_inv (map (\<lambda>i. if short_url i = k then add_count inc i else i) t)"
    unfolding table_inv_def keys by simp
  with Some show ?thesis by (simp add: dynamodb_update_def)
qed

lemma cached_ok_append: "cached_ok t e \<Longrightarrow> cached_ok (t @ [x]) e"
  by (simp add: cached_ok_def get_item_append split: option.splits)

lemma cached_ok_update: "cached_ok t e \<Longrightarrow> cached_ok (dynamodb_update t k inc) e"
proof (cases "get_item t k")
  case None
  assume "cached_ok t e"
  then have "cached_ok (t @ [\<lparr>short_url = k, long_url = None, ttl = None, created_at = None,
                              access_count = Some inc\<rparr>]) e"
    by (rule cached_ok_append)
  with None show ?thesis by (simp add: dynamodb_update_def)
next
  case (Some old)
  assume "cached_ok t e"
  then have "cached_ok (map (\<lambda>i. if short_url i = k then add_count inc i else i) t) e"
    by (auto simp: cached_ok_def get_item_update_other long_url_add_count split: option.splits)
  with Some show ?thesis by (simp add: dynamodb_update_def)
qed

lemma cache_coherent_lookup:
  assumes "cache_coherent \<sigma>" "map_of (dax \<sigma>) k = Some c"
  shows "\<exists>i. get_item (table \<sigma>) k = Some i \<and> long_url i = long_url c"
proof -
  from assms(2) have "(k, c) \<in> set (dax \<sigma>)" by (rule map_of_SomeD)
  with assms(1) have "cached_ok (table \<sigma>) (k, c)"
    by (simp add: cache_coherent_def list_all_iff)
  then show ?thesis by (simp add: cached_ok_def split: option.splits)
qed

lemma cache_coherent_post_url:
  assumes "cache_coherent \<sigma>"
  shows "cache_coherent (after (post_url f now created body \<sigma>))"
  using post_url_after_cases [of f now created body \<sigma>]
proof (elim disjE exE conjE)
  assume "after (post_url f now created body \<sigma>) = \<sigma>"
  with assms show ?thesis by simp
next
  fix url
  assume a: "after (post_url f now created body \<sigma>) = \<sigma>\<lparr>table := table \<sigma> @ [new_item url now created]\<rparr>"
  from assms have "list_all (cached_ok (table \<sigma> @ [new_item url now created])) (dax \<sigma>)"
    by (simp add: cache_coherent_def list_all_iff cached_ok_append)
  with a show ?thesis by (simp add: cache_coherent_def)
qed

lemma cache_coherent_get_url:
  assumes "cache_coherent \<sigma>"
  shows "cache_coherent (after (get_url f code \<sigma>))"
  using get_url_after_cases [of f code \<sigma>]
proof (elim disjE exE conjE)
  assume "after (get_url f code \<sigma>) = \<sigma>"
  with assms show ?thesis by simp
next
  fix i
  assume i: "get_item (table \<sigma>) code = Some i"
    and a: "after (get_url f code \<sigma>) = \<sigma>\<lparr>dax := (code, i) # dax \<sigma>\<rparr>"
  from i have "cached_ok (table \<sigma>) (code, i)" by (simp add: cached_ok_def)
  with assms a show ?thesis by (simp add: cache_coherent_def)
qed

lemma cache_coherent_update:
  assumes "cache_coherent \<sigma>"
  shows "cache_coherent (\<sigma>\<lparr>table := dynamodb_update (table \<sigma>) k inc\<rparr>)"
  using assms by (simp add: cache_coherent_def list_all_iff cached_ok_update)

lemma reachable_inv: "reachable \<sigma> \<Longrightarrow> table_inv (table \<sigma>) \<and> cache_coherent \<sigma>"
proof (induction rule: reachable.induct)
  case start
  show ?case by (simp add: table_inv_def cache_coherent_def)
next
  case (create \<sigma> f now created body)
  then show ?case by (simp add: table_inv_post_url cache_coherent_post_url)
next
  case (resolve \<sigma> f' f code)
  then have t: "table_inv (table \<sigma>)" and c: "cache_coherent \<sigma>" by simp_all
  have t1: "table_inv (table (after (get_url f code \<sigma>)))"
    using get_url_after_cases [of f code \<sigma>] t by (elim disjE exE conjE) simp_all
  have c1: "cache_coherent (after (get_url f code \<sigma>))"
    by (rule cache_coherent_get_url [OF c])
  from settled_get_url_cases [of f' f code \<sigma>] show ?case
  proof
    assume "fst (settled f' (get_url f code \<sigma>)) = after (get_url f code \<sigma>)"
    with t1 c1 show ?thesis by simp
  next
    assume "fst (settled f' (get_url f code \<sigma>)) =
      (after (get_url f code \<sigma>))\<lparr>table := dynamodb_update (table (after (get_url f code \<sigma>))) code 1\<rparr>"
    with table_inv_update [OF t1, of code 1] cache_coherent_update [OF c1, of code 1]
    show ?thesis by simp
  qed
qed

lemma resolve_stored:
  assumes "\<not> get_fails g" "cache_coherent \<sigma>" "get_item (table \<sigma>) code = Some i"
  shows "response (get_url g code \<sigma>) = Redirect 301 (long_url i)"
proof (cases "map_of (dax \<sigma>) code")
  case None
  with assms(1,3) show ?thesis by (simp add: get_url_eq)
next
  case (Some c)
  from cache_coherent_lookup [OF assms(2) Some] assms(3) have "long_url c = long_url i" by simp
  with assms(1) Some show ?thesis by (simp add: get_url_eq)
qed

section \<open>A created record stays resolvable until it is due\<close>









section \<open>Facts about the \<open>Location\<close> header\<close>


section \<open>Creation\<close>

text \<open>
  Claim C1. When the table holds a record for the long URL \<open>s\<close>, creating \<open>s\<close> answers 200
  with that record's short code, the long URL and the record's \<open>ttl\<close>; the shared state is
  left as it was, no request stays in flight, and the table still holds exactly that one
  record for \<open>s\<close>. (The query must be answered: a rejected query is the 500 of the
  \<^verbatim>\<open>catch\<close> block.)
\<close>

theorem create_existing_returns_record:
  assumes "table_inv (table \<sigma>)" "i \<in> set (table \<sigma>)" "long_url i = Some s"
    and "\<not> query_fails f" "get_prop body ''longUrl'' = JString s"
  shows "response (post_url f now created body \<sigma>) =
           Json 200 (JObject [(''shortUrl'', JString (short_url i)), (''longUrl'', JString s),
                              (''ttl'', num_or_undefined (ttl i))])
       \<and> after (post_url f now created body \<sigma>) = \<sigma>
       \<and> detached (post_url f now created body \<sigma>) = []
       \<and> records_for s (table (after (post_url f now created body \<sigma>))) = [i]"
proof -
  from table_inv_code [OF assms(1-3)] have ne: "s \<noteq> []" by simp
  have one: "records_for s (table \<sigma>) = [i]" by (rule records_for_unique [OF assms(1-3)])
  show ?thesis
    using assms(4) one by (simp add: post_url_eq [OF assms(5) ne] respond_def)
qed

theorem create_existing_returns_record_witness:
  "table_inv (table example_store)
   \<and> response (post_url no_faults 1800000000000 1800000000000
                  [(''longUrl'', JString ''https://a.example/x'')] example_store) =
       Json 200 (JObject [(''shortUrl'', JString (short_code ''https://a.example/x'')),
                          (''longUrl'', JString ''https://a.example/x''),
                          (''ttl'', JNumber 1700000000)])
   \<and> after (post_url no_faults 1800000000000 1800000000000
                  [(''longUrl'', JString ''https://a.example/x'')] example_store) = example_store
   \<and> length (records_for ''https://a.example/x''
        (table (after (post_url no_faults 1800000000000 1800000000000
                  [(''longUrl'', JString ''https://a.example/x'')] example_store)))) = 1"
proof -
  have inv: "table_inv (table example_store)"
    by (simp add: example_store_def table_inv_def row_ok_def)
  have mem: "hd (table example_store) \<in> set (table example_store)"
    by (simp add: example_store_def)
  have lu: "long_url (hd (table example_store)) = Some ''https://a.example/x''"
    by (simp add: example_store_def)
  have nf: "\<not> query_fails no_faults" by (simp add: no_faults_def)
  have body: "get_prop [(''longUrl'', JString ''https://a.example/x'')] ''longUrl''
                = JString ''https://a.example/x''"
    by (simp add: get_prop_def)
  have sel: "short_url (hd (table example_store)) = short_code ''https://a.example/x''"
    "num_or_undefined (ttl (hd (table example_store))) = JNumber 1700000000"
    by (simp_all add: example_store_def num_or_undefined_def)
  from create_existing_returns_record [OF inv mem lu nf body, of 1800000000000 1800000000000]
  show ?thesis using inv sel by auto
qed

text \<open>
  Claim C2, as the code has it. When the short code is already taken at the moment the
  conditional write arrives (in particular when a concurrent creation of the same long
  URL has written first), the handler does not read again: the rejection is caught and
  logged, the answer is 500 \<open>Internal server error\<close>, and the handler changes nothing,
  so that the winner's record stays.
\<close>

theorem create_lost_race_is_500:
  assumes "s \<noteq> []" "get_prop body ''longUrl'' = JString s"
    and "\<not> query_fails f"
    and "records_for s (table \<sigma>) = []"
    and "get_item (table (others \<sigma>)) (short_code s) = Some winner"
  shows "response (post_url_among others f now created body \<sigma>) =
           Json 500 (JObject [(''error'', JString ''Internal server error'')])
       \<and> console (post_url_among others f now created body \<sigma>) = [''Error creating short URL:'']
       \<and> after (post_url_among others f now created body \<sigma>) = others \<sigma>"
  using assms(3-5)
  by (simp add: post_url_among_eq [OF assms(2,1)] store_new_eq caught_def)

theorem create_lost_race_is_500_witness:
  "response (post_url_among
       (\<lambda>\<sigma>. after (post_url no_faults 1800000000000 1800000000002
                      [(''longUrl'', JString ''https://a.example/x'')] \<sigma>))
       no_faults 1800000000001 1800000000003
       [(''longUrl'', JString ''https://a.example/x'')] empty_store) =
     Json 500 (JObject [(''error'', JString ''Internal server error'')])"
proof -
  have ne: "''https://a.example/x'' \<noteq> []" by simp
  have body: "get_prop [(''longUrl'', JString ''https://a.example/x'')] ''longUrl''
                = JString ''https://a.example/x''"
    by (simp add: get_prop_def)
  have nq: "\<not> query_fails no_faults" by (simp add: no_faults_def)
  have none: "records_for ''https://a.example/x'' (table empty_store) = []"
    by (simp add: records_for_def empty_store_def)
  have won: "get_item (table (after (post_url no_faults 1800000000000 1800000000002
                      [(''longUrl'', JString ''https://a.example/x'')] empty_store)))
               (short_code ''https://a.example/x'')
             = Some (new_item ''https://a.example/x'' 1800000000000 1800000000002)"
    by (simp add: post_url_eq [OF body ne] store_new_def dynamodb_put_def respond_def
        get_item_def empty_store_def new_item_def records_for_def no_faults_def)
  from create_lost_race_is_500 [where others = "\<lambda>\<sigma>. after (post_url no_faults 1800000000000
        1800000000002 [(''longUrl'', JString ''https://a.example/x'')] \<sigma>)"
      and now = 1800000000001 and created = 1800000000003, OF ne body nq none won]
  show ?thesis by simp
qed

text \<open>
  Claim C2 as stated fails. Two requests create the same URL on the empty store; the
  second one has had \<open>no record\<close> for an answer to its query when the first one runs to
  its end and writes the record. The write of the second is refused, and it answers 500
  instead of the winner's record.
\<close>

theorem create_lost_race_counterexample:
  "table (after (post_url no_faults 1800000000000 1800000000002
                   [(''longUrl'', JString ''https://a.example/x'')] empty_store)) =
     [\<lparr>short_url = short_code ''https://a.example/x'', long_url = Some ''https://a.example/x'',
       ttl = Some 1831536000, created_at = Some 1800000000002, access_count = Some 0\<rparr>]
   \<and> response (post_url_among
       (\<lambda>\<sigma>. after (post_url no_faults 1800000000000 1800000000002
                      [(''longUrl'', JString ''https://a.example/x'')] \<sigma>))
       no_faults 1800000000001 1800000000003
       [(''longUrl'', JString ''https://a.example/x'')] empty_store) =
     Json 500 (JObject [(''error'', JString ''Internal server error'')])"
  by (simp add: post_url_def post_url_among_def get_prop_def Let_def dynamodb_query_def
      empty_store_def no_faults_def store_new_def dynamodb_put_def
      get_item_def caught_def respond_def TTL_DAYS_def)

text \<open>
  Claim C4, with the digest the code computes. The short code of the creation path is
  the first 16 of the 64 hexadecimal characters of the SHA-256 digest of the bytes of
  \<open>longUrl\<close>, taken as they are; creating \<^verbatim>\<open>https://example.com/very/long/url\<close> on the
  empty store answers 201 with the short code \<^verbatim>\<open>8ec596c44bd62b6b\<close>.
\<close>

theorem create_short_code_is_digest_prefix:
  "short_code longUrl = take 16 (hex (sha256 (map of_char longUrl)))
   \<and> length (hex (sha256 (map of_char longUrl))) = 64
   \<and> length (short_code longUrl) = 16
   \<and> list_all (\<lambda>c. c \<in> set ''0123456789abcdef'') (short_code longUrl)
   \<and> response (post_url no_faults now created
                  [(''longUrl'', JString ''https://example.com/very/long/url'')] empty_store) =
       Json 201 (JObject [(''shortUrl'', JString ''8ec596c44bd62b6b''),
                          (''longUrl'', JString ''https://example.com/very/long/url''),
                          (''ttl'', JNumber (now div 1000 + 31536000))])"
proof -
  have ne: "''https://example.com/very/long/url'' \<noteq> []" by simp
  have body: "get_prop [(''longUrl'', JString ''https://example.com/very/long/url'')] ''longUrl''
                = JString ''https://example.com/very/long/url''"
    by (simp add: get_prop_def)
  have a: "short_code longUrl = take 16 (hex (sha256 (map of_char longUrl)))"
    using short_code_take [of longUrl] by (simp add: sha256_hex_def utf8_def)
  have b: "length (hex (sha256 (map of_char longUrl))) = 64"
    using length_sha256_hex [of longUrl] by (simp add: sha256_hex_def utf8_def)
  have c: "response (post_url no_faults now created
                  [(''longUrl'', JString ''https://example.com/very/long/url'')] empty_store) =
       Json 201 (JObject [(''shortUrl'', JString ''8ec596c44bd62b6b''),
                          (''longUrl'', JString ''https://example.com/very/long/url''),
                          (''ttl'', JNumber (now div 1000 + 31536000))])"
    by (simp add: post_url_eq [OF body ne] store_new_def dynamodb_put_def respond_def
        get_item_def empty_store_def records_for_def no_faults_def short_code_example)
  from a b c length_short_code [of longUrl] hex_short_code [of longUrl]
  show ?thesis by (intro conjI)
qed

text \<open>
  Claim C4 as stated fails in its example: the short code of
  \<^verbatim>\<open>https://example.com/very/long/url\<close> is not \<^verbatim>\<open>d4c9d9027326271a\<close>.
\<close>

theorem create_example_code_counterexample:
  "short_code ''https://example.com/very/long/url'' = ''8ec596c44bd62b6b''
   \<and> short_code ''https://example.com/very/long/url'' \<noteq> ''d4c9d9027326271a''"
  by (simp add: short_code_example)

text \<open>
  Claim C6, as the code has it. For a non-empty \<open>longUrl\<close> that has no record, and whose
  short code is not the key of any item, creation appends exactly one item, with
  \<open>access_count = 0\<close> and \<open>ttl\<close> equal to the clock in whole seconds plus 365 days, and
  answers 201 with the short code, the long URL and that \<open>ttl\<close>. (Query and write must
  be answered.)
\<close>

theorem create_new_inserts_record:
  assumes "s \<noteq> []" "get_prop body ''longUrl'' = JString s"
    and "\<not> query_fails f" "\<not> put_fails f"
    and "records_for s (table \<sigma>) = []"
    and "get_item (table \<sigma>) (short_code s) = None"
  shows "response (post_url f now created body \<sigma>) =
           Json 201 (JObject [(''shortUrl'', JString (short_code s)), (''longUrl'', JString s),
                              (''ttl'', JNumber (now div 1000 + 365 * 24 * 60 * 60))])
       \<and> after (post_url f now created body \<sigma>) =
           \<sigma>\<lparr>table := table \<sigma> @
             [\<lparr>short_url = short_code s, long_url = Some s,
               ttl = Some (now div 1000 + 365 * 24 * 60 * 60),
               created_at = Some created, access_count = Some 0\<rparr>]\<rparr>"
  using assms(3-6)
  by (simp add: post_url_eq [OF assms(2,1)] store_new_eq respond_def new_item_def)

theorem create_new_inserts_record_witness:
  "response (post_url no_faults 1800000000999 1800000001000
               [(''longUrl'', JString ''https://a.example/x'')] empty_store) =
     Json 201 (JObject [(''shortUrl'', JString (short_code ''https://a.example/x'')),
                        (''longUrl'', JString ''https://a.example/x''),
                        (''ttl'', JNumber 1831536000)])
   \<and> table (after (post_url no_faults 1800000000999 1800000001000
               [(''longUrl'', JString ''https://a.example/x'')] empty_store)) =
     [\<lparr>short_url = short_code ''https://a.example/x'', long_url = Some ''https://a.example/x'',
       ttl = Some 1831536000, created_at = Some 1800000001000, access_count = Some 0\<rparr>]"
proof -
  have ne: "''https://a.example/x'' \<noteq> []" by simp
  have body: "get_prop [(''longUrl'', JString ''https://a.example/x'')] ''longUrl''
                = JString ''https://a.example/x''"
    by (simp add: get_prop_def)
  have nq: "\<not> query_fails no_faults" and np: "\<not> put_fails no_faults"
    by (simp_all add: no_faults_def)
  have none: "records_for ''https://a.example/x'' (table empty_store) = []"
    by (simp add: records_for_def empty_store_def)
  have free: "get_item (table empty_store) (short_code ''https://a.example/x'') = None"
    by (simp add: get_item_def empty_store_def)
  from create_new_inserts_record [OF ne body nq np none free, of 1800000000999 1800000001000]
  show ?thesis by (auto simp: empty_store_def)
qed

text \<open>
  Claim C6 as stated fails: that \<open>longUrl\<close> has no record is not enough. Where its short
  code is the key of another item, the conditional write is refused, and the answer is
  500 with nothing written.
\<close>

theorem create_new_key_taken_counterexample:
  "''https://a.example/x'' \<noteq> []
   \<and> records_for ''https://a.example/x'' (table collision_store) = []
   \<and> response (post_url no_faults 1800000000999 1800000001000
               [(''longUrl'', JString ''https://a.example/x'')] collision_store) =
       Json 500 (JObject [(''error'', JString ''Internal server error'')])
   \<and> table (after (post_url no_faults 1800000000999 1800000001000
               [(''longUrl'', JString ''https://a.example/x'')] collision_store))
       = table collision_store"
  by (simp add: post_url_def post_url_among_def get_prop_def Let_def dynamodb_query_def
      records_for_def collision_store_def no_faults_def store_new_def dynamodb_put_def
      get_item_def caught_def)

text \<open>Such a state is reached by the handler itself, from the empty store: by creating
  first a URL with the same short code.\<close>

lemma create_new_key_taken_reachable:
  "\<exists>s t. s \<noteq> [] \<and> t \<noteq> [] \<and>
     reachable (after (post_url no_faults now created [(''longUrl'', JString s)] empty_store)) \<and>
     records_for t
       (table (after (post_url no_faults now created [(''longUrl'', JString s)] empty_store))) = [] \<and>
     response (post_url no_faults now' created' [(''longUrl'', JString t)]
       (after (post_url no_faults now created [(''longUrl'', JString s)] empty_store))) =
       Json 500 (JObject [(''error'', JString ''Internal server error'')])"
proof -
  from short_code_collides obtain s t where
    st: "s \<noteq> t" "s \<noteq> []" "t \<noteq> []" "short_code s = short_code t" by blast
  let ?\<sigma> = "after (post_url no_faults now created [(''longUrl'', JString s)] empty_store)"
  have bs: "get_prop [(''longUrl'', JString s)] ''longUrl'' = JString s"
    and bt: "get_prop [(''longUrl'', JString t)] ''longUrl'' = JString t"
    by (simp_all add: get_prop_def)
  have tab: "table ?\<sigma> = [new_item s now created]"
    by (simp add: post_url_eq [OF bs st(2)] store_new_eq respond_def get_item_def
        empty_store_def records_for_def no_faults_def)
  have r: "reachable ?\<sigma>"
    unfolding empty_store_def by (rule reachable.create [OF reachable.start])
  have none: "records_for t (table ?\<sigma>) = []"
    using st(1) by (simp add: tab records_for_def new_item_def)
  have taken: "get_item (table ?\<sigma>) (short_code t) = Some (new_item s now created)"
    using st(4) by (simp add: tab get_item_def new_item_def)
  have "response (post_url no_faults now' created' [(''longUrl'', JString t)] ?\<sigma>) =
       Json 500 (JObject [(''error'', JString ''Internal server error'')])"
    using none taken
    by (simp add: post_url_eq [OF bt st(3)] store_new_eq caught_def no_faults_def)
  with st(2,3) r none show ?thesis by blast
qed

text \<open>
  Claim C8. A body without \<open>longUrl\<close>, or with the empty string for it, is answered 400
  and nothing is written or sent to the store. Every non-empty string is accepted, whatever
  it looks like: it is never answered 400; where a record for it exists it is answered 200
  with that record's short code; where none exists and its short code is free it is
  answered 201 and its record is stored; and it is answered 500 only for a reason of the
  store (the query rejected, or the write rejected or refused). The body is the object
  the handler receives from \<^verbatim>\<open>express.json()\<close>.
\<close>

theorem create_rejects_missing_longUrl:
  "(get_prop body ''longUrl'' = JUndefined \<or> get_prop body ''longUrl'' = JString [] \<longrightarrow>
      response (post_url f now created body \<sigma>) =
        Json 400 (JObject [(''error'', JString ''longUrl is required'')])
      \<and> after (post_url f now created body \<sigma>) = \<sigma>
      \<and> detached (post_url f now created body \<sigma>) = [])
   \<and> (s \<noteq> [] \<and> get_prop body ''longUrl'' = JString s \<longrightarrow>
      status (response (post_url f now created body \<sigma>)) \<noteq> 400
      \<and> (\<not> query_fails f \<and> records_for s (table \<sigma>) \<noteq> [] \<longrightarrow>
            status (response (post_url f now created body \<sigma>)) = 200
            \<and> shortUrl_of (response (post_url f now created body \<sigma>))
                = Some (short_url (hd (records_for s (table \<sigma>)))))
      \<and> (\<not> query_fails f \<and> \<not> put_fails f \<and> records_for s (table \<sigma>) = []
           \<and> get_item (table \<sigma>) (short_code s) = None \<longrightarrow>
            status (response (post_url f now created body \<sigma>)) = 201
            \<and> shortUrl_of (response (post_url f now created body \<sigma>)) = Some (short_code s)
            \<and> records_for s (table (after (post_url f now created body \<sigma>)))
                = [new_item s now created])
      \<and> (status (response (post_url f now created body \<sigma>)) = 500 \<longleftrightarrow>
            query_fails f
            \<or> records_for s (table \<sigma>) = []
               \<and> (put_fails f \<or> get_item (table \<sigma>) (short_code s) \<noteq> None)))"
proof (intro conjI impI)
  assume "get_prop body ''longUrl'' = JUndefined \<or> get_prop body ''longUrl'' = JString []"
  then have "\<not> truthy (get_prop body ''longUrl'')" by auto
  then have eq: "post_url f now created body \<sigma> =
      respond \<sigma> (Json 400 (JObject [(''error'', JString ''longUrl is required'')]))"
    unfolding post_url_def by (rule post_url_falsy)
  show "response (post_url f now created body \<sigma>) =
        Json 400 (JObject [(''error'', JString ''longUrl is required'')])"
    and "after (post_url f now created body \<sigma>) = \<sigma>"
    and "detached (post_url f now created body \<sigma>) = []"
    by (simp_all add: eq respond_def)
next
  assume "s \<noteq> [] \<and> get_prop body ''longUrl'' = JString s"
  then have s: "get_prop body ''longUrl'' = JString s" "s \<noteq> []" by simp_all
  note eq = post_url_eq [OF s, of f now created \<sigma>]
  show "status (response (post_url f now created body \<sigma>)) \<noteq> 400"
    by (simp add: eq store_new_eq respond_def caught_def split: list.splits)
  show "status (response (post_url f now created body \<sigma>)) = 500 \<longleftrightarrow>
            query_fails f
            \<or> records_for s (table \<sigma>) = []
               \<and> (put_fails f \<or> get_item (table \<sigma>) (short_code s) \<noteq> None)"
    by (simp add: eq store_new_eq respond_def caught_def split: list.splits)
  {
    assume "\<not> query_fails f \<and> records_for s (table \<sigma>) \<noteq> []"
    then show "status (response (post_url f now created body \<sigma>)) = 200"
      and "shortUrl_of (response (post_url f now created body \<sigma>))
                = Some (short_url (hd (records_for s (table \<sigma>))))"
      by (simp_all add: eq respond_def shortUrl_of_def split: list.splits)
  }
  {
    assume a: "\<not> query_fails f \<and> \<not> put_fails f \<and> records_for s (table \<sigma>) = []
           \<and> get_item (table \<sigma>) (short_code s) = None"
    then show "status (response (post_url f now created body \<sigma>)) = 201"
      and "shortUrl_of (response (post_url f now created body \<sigma>)) = Some (short_code s)"
      by (simp_all add: eq store_new_eq respond_def shortUrl_of_def)
    from a have "after (post_url f now created body \<sigma>) =
        \<sigma>\<lparr>table := table \<sigma> @ [new_item s now created]\<rparr>"
      by (simp add: eq store_new_eq respond_def)
    moreover from a have "records_for s (table \<sigma> @ [new_item s now created]) = [new_item s now created]"
      by (simp add: records_for_def new_item_def)
    ultimately show "records_for s (table (after (post_url f now created body \<sigma>)))
                = [new_item s now created]" by simp
  }
qed

theorem create_rejects_missing_longUrl_witness:
  "response (post_url no_faults 0 0 [] empty_store) =
     Json 400 (JObject [(''error'', JString ''longUrl is required'')])
   \<and> response (post_url no_faults 0 0 [(''longUrl'', JString [])] empty_store) =
     Json 400 (JObject [(''error'', JString ''longUrl is required'')])
   \<and> after (post_url no_faults 0 0 [(''longUrl'', JString [])] empty_store) = empty_store
   \<and> status (response (post_url no_faults 0 0 [(''longUrl'', JString ''not a url'')] empty_store))
       = 201
   \<and> shortUrl_of (response (post_url no_faults 0 0 [(''longUrl'', JString ''not a url'')]
        empty_store)) = Some (short_code ''not a url'')
   \<and> status (response (post_url no_faults 0 0 [(''longUrl'', JString ''https://a.example/x'')]
        example_store)) = 200"
proof -
  have b0: "get_prop [] ''longUrl'' = JUndefined \<or> get_prop [] ''longUrl'' = JString []"
    and b1: "get_prop [(''longUrl'', JString [])] ''longUrl'' = JUndefined
             \<or> get_prop [(''longUrl'', JString [])] ''longUrl'' = JString []"
    and b2: "''not a url'' \<noteq> [] \<and> get_prop [(''longUrl'', JString ''not a url'')] ''longUrl''
                = JString ''not a url''"
    and b3: "''https://a.example/x'' \<noteq> [] \<and>
             get_prop [(''longUrl'', JString ''https://a.example/x'')] ''longUrl''
                = JString ''https://a.example/x''"
    by (simp_all add: get_prop_def)
  have free: "\<not> query_fails no_faults \<and> \<not> put_fails no_faults
      \<and> records_for ''not a url'' (table empty_store) = []
      \<and> get_item (table empty_store) (short_code ''not a url'') = None"
    by (simp add: no_faults_def records_for_def get_item_def empty_store_def)
  have found: "\<not> query_fails no_faults
      \<and> records_for ''https://a.example/x'' (table example_store) \<noteq> []"
    by (simp add: no_faults_def records_for_def example_store_def)
  note t0 = create_rejects_missing_longUrl [of "[]" no_faults 0 0 empty_store "''x''",
      THEN conjunct1, THEN mp, OF b0]
  note t1 = create_rejects_missing_longUrl [of "[(''longUrl'', JString [])]" no_faults 0 0
      empty_store "''x''", THEN conjunct1, THEN mp, OF b1]
  note t2 = create_rejects_missing_longUrl [of "[(''longUrl'', JString ''not a url'')]" no_faults
      0 0 empty_store "''not a url''", THEN conjunct2, THEN mp, OF b2]
  note t3 = create_rejects_missing_longUrl [of "[(''longUrl'', JString ''https://a.example/x'')]"
      no_faults 0 0 example_store "''https://a.example/x''", THEN conjunct2, THEN mp, OF b3]
  note n2 = t2 [THEN conjunct2, THEN conjunct2, THEN conjunct1, THEN mp, OF free]
  note n3 = t3 [THEN conjunct2, THEN conjunct1, THEN mp, OF found]
  from t0 [THEN conjunct1] t1 [THEN conjunct1] t1 [THEN conjunct2, THEN conjunct1]
    n2 [THEN conjunct1] n2 [THEN conjunct2, THEN conjunct1] n3 [THEN conjunct1]
  show ?thesis by (intro conjI)
qed

text \<open>
  Claim C10. When the table still holds a record for \<open>s\<close> whose \<open>ttl\<close> lies before the
  clock of the request, creating \<open>s\<close> answers 200 with that record's short code and its
  past \<open>ttl\<close>, and writes nothing.
\<close>

theorem create_matches_expired_record:
  assumes "table_inv (table \<sigma>)" "i \<in> set (table \<sigma>)" "long_url i = Some s"
    and "expired (now div 1000) i"
    and "\<not> query_fails f" "get_prop body ''longUrl'' = JString s"
  shows "\<exists>e. ttl i = Some e \<and> e < now div 1000
           \<and> response (post_url f now created body \<sigma>) =
               Json 200 (JObject [(''shortUrl'', JString (short_url i)), (''longUrl'', JString s),
                                  (''ttl'', JNumber e)])
           \<and> table (after (post_url f now created body \<sigma>)) = table \<sigma>"
proof -
  from assms(4) obtain e where e: "ttl i = Some e" "e < now div 1000"
    by (auto simp: expired_def split: option.splits)
  from table_inv_code [OF assms(1-3)] have ne: "s \<noteq> []" by simp
  have one: "records_for s (table \<sigma>) = [i]" by (rule records_for_unique [OF assms(1-3)])
  have "response (post_url f now created body \<sigma>) =
               Json 200 (JObject [(''shortUrl'', JString (short_url i)), (''longUrl'', JString s),
                                  (''ttl'', JNumber e)])
        \<and> table (after (post_url f now created body \<sigma>)) = table \<sigma>"
    using assms(5) one e(1)
    by (simp add: post_url_eq [OF assms(6) ne] respond_def num_or_undefined_def)
  with e show ?thesis by blast
qed

theorem create_matches_expired_record_witness:
  "expired (1800000000000 div 1000) (hd (table example_store))
   \<and> response (post_url no_faults 1800000000000 1800000000000
                  [(''longUrl'', JString ''https://a.example/x'')] example_store) =
       Json 200 (JObject [(''shortUrl'', JString (short_code ''https://a.example/x'')),
                          (''longUrl'', JString ''https://a.example/x''),
                          (''ttl'', JNumber 1700000000)])
   \<and> table (after (post_url no_faults 1800000000000 1800000000000
                  [(''longUrl'', JString ''https://a.example/x'')] example_store))
       = table example_store"
proof -
  have inv: "table_inv (table example_store)"
    by (simp add: example_store_def table_inv_def row_ok_def)
  have mem: "hd (table example_store) \<in> set (table example_store)"
    by (simp add: example_store_def)
  have lu: "long_url (hd (table example_store)) = Some ''https://a.example/x''"
    by (simp add: example_store_def)
  have ex: "expired (1800000000000 div 1000) (hd (table example_store))"
    by (simp add: example_store_def expired_def)
  have nf: "\<not> query_fails no_faults" by (simp add: no_faults_def)
  have body: "get_prop [(''longUrl'', JString ''https://a.example/x'')] ''longUrl''
                = JString ''https://a.example/x''"
    by (simp add: get_prop_def)
  have sel: "short_url (hd (table example_store)) = short_code ''https://a.example/x''"
    "ttl (hd (table example_store)) = Some 1700000000"
    by (simp_all add: example_store_def)
  from create_matches_expired_record [OF inv mem lu ex nf body, of 1800000000000]
  show ?thesis using ex sel by auto
qed

section \<open>Resolution\<close>

text \<open>
  Claim C3, as the code has it. With the read answered: a record that is due but still in
  the cache or in the table is resolved like any other, the answer being the redirect 301
  to its long URL; the answer is 404 exactly when neither the cache nor the table holds
  the code; and once the store has deleted the due record, the cache not holding it, the
  answer is 404.
\<close>

theorem resolve_ignores_expiry:
  assumes "\<not> get_fails f"
  shows "(expired now_s i \<and>
            (map_of (dax \<sigma>) code = Some i
             \<or> map_of (dax \<sigma>) code = None \<and> get_item (table \<sigma>) code = Some i) \<longrightarrow>
          response (get_url f code \<sigma>) = Redirect 301 (long_url i))
       \<and> (response (get_url f code \<sigma>) = Json 404 (JObject [(''error'', JString ''URL not found'')])
            \<longleftrightarrow> map_of (dax \<sigma>) code = None \<and> get_item (table \<sigma>) code = None)
       \<and> (expired now_s i \<and> chosen i \<and> distinct (map short_url (table \<sigma>)) \<and>
            map_of (dax \<sigma>) code = None \<and> get_item (table \<sigma>) code = Some i \<longrightarrow>
          response (get_url f code (store_deletes now_s chosen \<sigma>)) =
            Json 404 (JObject [(''error'', JString ''URL not found'')]))"
proof (intro conjI impI)
  assume "expired now_s i \<and>
            (map_of (dax \<sigma>) code = Some i
             \<or> map_of (dax \<sigma>) code = None \<and> get_item (table \<sigma>) code = Some i)"
  then have "map_of (dax \<sigma>) code = Some i
             \<or> map_of (dax \<sigma>) code = None \<and> get_item (table \<sigma>) code = Some i" by simp
  then show "response (get_url f code \<sigma>) = Redirect 301 (long_url i)"
    using assms by (auto simp: get_url_eq)
next
  show "response (get_url f code \<sigma>) = Json 404 (JObject [(''error'', JString ''URL not found'')])
            \<longleftrightarrow> map_of (dax \<sigma>) code = None \<and> get_item (table \<sigma>) code = None"
    using assms by (simp add: get_url_eq respond_def split: option.splits)
next
  assume a: "expired now_s i \<and> chosen i \<and> distinct (map short_url (table \<sigma>)) \<and>
            map_of (dax \<sigma>) code = None \<and> get_item (table \<sigma>) code = Some i"
  then have "\<not> \<not> (expired now_s i \<and> chosen i)" by simp
  with a have "get_item (filter (\<lambda>i. \<not> (expired now_s i \<and> chosen i)) (table \<sigma>)) code = None"
    by (intro get_item_filter_out [where i = i]) simp_all
  with a assms show "response (get_url f code (store_deletes now_s chosen \<sigma>)) =
            Json 404 (JObject [(''error'', JString ''URL not found'')])"
    by (simp add: get_url_eq store_deletes_def respond_def)
qed

theorem resolve_ignores_expiry_witness:
  "expired 1800000000 (hd (table expired_store))
   \<and> response (get_url no_faults ''0123456789abcdef'' expired_store)
       = Redirect 301 (Some ''https://a.example/x'')
   \<and> response (get_url no_faults ''0123456789abcdef''
         (store_deletes 1800000000 (\<lambda>i. True) expired_store))
       = Json 404 (JObject [(''error'', JString ''URL not found'')])"
proof -
  have g: "\<not> get_fails no_faults" by (simp add: no_faults_def)
  have c: "map_of (dax expired_store) ''0123456789abcdef'' = None"
    by (simp add: expired_store_def)
  have t: "get_item (table expired_store) ''0123456789abcdef'' = Some (hd (table expired_store))"
    by (simp add: expired_store_def get_item_def)
  have e: "expired 1800000000 (hd (table expired_store))"
    by (simp add: expired_store_def expired_def)
  have d: "distinct (map short_url (table expired_store))"
    by (simp add: expired_store_def)
  have l: "long_url (hd (table expired_store)) = Some ''https://a.example/x''"
    by (simp add: expired_store_def)
  note inst = resolve_ignores_expiry [OF g, of 1800000000 "hd (table expired_store)" expired_store
      "''0123456789abcdef''" "\<lambda>i. True"]
  from inst [THEN conjunct1] e c t l
  have r: "response (get_url no_faults ''0123456789abcdef'' expired_store)
       = Redirect 301 (Some ''https://a.example/x'')" by simp
  from inst [THEN conjunct2, THEN conjunct2] e d c t
  have n: "response (get_url no_faults ''0123456789abcdef''
         (store_deletes 1800000000 (\<lambda>i. True) expired_store))
       = Json 404 (JObject [(''error'', JString ''URL not found'')])" by simp
  from e r n show ?thesis by (intro conjI)
qed

text \<open>
  Claim C3 as stated fails: the record below was due at 1700000000, the request comes at
  1800000000 or at any other time, and the answer is the redirect, not 404.
\<close>

theorem resolve_expired_counterexample:
  "get_item (table expired_store) ''0123456789abcdef'' =
      Some \<lparr>short_url = ''0123456789abcdef'', long_url = Some ''https://a.example/x'',
            ttl = Some 1700000000, created_at = Some 1668464000000, access_count = Some 3\<rparr>
   \<and> expired 1800000000
        \<lparr>short_url = ''0123456789abcdef'', long_url = Some ''https://a.example/x'',
         ttl = Some 1700000000, created_at = Some 1668464000000, access_count = Some 3\<rparr>
   \<and> response (get_url no_faults ''0123456789abcdef'' expired_store)
       = Redirect 301 (Some ''https://a.example/x'')
   \<and> response (get_url no_faults ''0123456789abcdef'' expired_store)
       \<noteq> Json 404 (JObject [(''error'', JString ''URL not found'')])"
  by (simp add: get_url_def daxClient_get_def expired_store_def get_item_def no_faults_def
      expired_def)




text \<open>
  Claim C7. A short code that neither the cache nor the table holds is answered 404 with
  \<open>{"error": "URL not found"}\<close>; no update of the counter is sent, and the state is as
  it was.
\<close>

theorem resolve_unknown_code_not_found:
  assumes "\<not> get_fails f" "map_of (dax \<sigma>) code = None" "get_item (table \<sigma>) code = None"
  shows "response (get_url f code \<sigma>) = Json 404 (JObject [(''error'', JString ''URL not found'')])
       \<and> detached (get_url f code \<sigma>) = []
       \<and> settled f' (get_url f code \<sigma>) = (\<sigma>, [])"
  using assms by (simp add: get_url_eq respond_def settled_def)

theorem resolve_unknown_code_not_found_witness:
  "response (get_url no_faults ''0000000000000000'' expired_store) =
     Json 404 (JObject [(''error'', JString ''URL not found'')])
   \<and> detached (get_url no_faults ''0000000000000000'' expired_store) = []
   \<and> settled no_faults (get_url no_faults ''0000000000000000'' expired_store) = (expired_store, [])"
proof -
  have g: "\<not> get_fails no_faults" by (simp add: no_faults_def)
  have c: "map_of (dax expired_store) ''0000000000000000'' = None"
    by (simp add: expired_store_def)
  have t: "get_item (table expired_store) ''0000000000000000'' = None"
    by (simp add: expired_store_def get_item_def)
  from resolve_unknown_code_not_found [OF g c t] show ?thesis by simp
qed

text \<open>
  Claim C9. A resolution that answers 301 has sent exactly one request, \<open>ADD access_count 1\<close>
  on the resolved key, and has logged nothing. The answer is made before that request
  settles and does not depend on how it settles. When it settles, a rejection only adds a
  line to the log and leaves the state as it was; otherwise the table, and not the cache,
  is updated, and the counter of the stored item has grown by one.
\<close>

theorem resolve_hit_counts_detached:
  assumes "status (response (get_url f code \<sigma>)) = 301"
  shows "detached (get_url f code \<sigma>) = [Update code 1]
       \<and> console (get_url f code \<sigma>) = []
       \<and> response (get_url (f\<lparr>update_fails := b\<rparr>) code \<sigma>) = response (get_url f code \<sigma>)
       \<and> settled f' (get_url f code \<sigma>) =
           (if update_fails f'
            then (after (get_url f code \<sigma>), [''Error updating access count:''])
            else ((after (get_url f code \<sigma>))
                    \<lparr>table := dynamodb_update (table (after (get_url f code \<sigma>))) code 1\<rparr>, []))
       \<and> dax (fst (settled f' (get_url f code \<sigma>))) = dax (after (get_url f code \<sigma>))
       \<and> (\<forall>j. get_item (table (after (get_url f code \<sigma>))) code = Some j \<longrightarrow>
             get_item (dynamodb_update (table (after (get_url f code \<sigma>))) code 1) code =
               Some (j\<lparr>access_count :=
                        Some ((case access_count j of None \<Rightarrow> 0 | Some c \<Rightarrow> c) + 1)\<rparr>))"
proof -
  have d: "detached (get_url f code \<sigma>) = [Update code 1]"
    and c: "console (get_url f code \<sigma>) = []"
    using assms
    by (simp_all add: get_url_eq caught_def respond_def split: if_splits option.splits)
  have r: "response (get_url (f\<lparr>update_fails := b\<rparr>) code \<sigma>) = response (get_url f code \<sigma>)"
    by (simp add: get_url_eq)
  have s: "settled f' (get_url f code \<sigma>) =
           (if update_fails f'
            then (after (get_url f code \<sigma>), [''Error updating access count:''])
            else ((after (get_url f code \<sigma>))
                    \<lparr>table := dynamodb_update (table (after (get_url f code \<sigma>))) code 1\<rparr>, []))"
    by (simp add: settled_def d c)
  have x: "dax (fst (settled f' (get_url f code \<sigma>))) = dax (after (get_url f code \<sigma>))"
    by (simp add: s)
  have u: "\<forall>j. get_item (table (after (get_url f code \<sigma>))) code = Some j \<longrightarrow>
             get_item (dynamodb_update (table (after (get_url f code \<sigma>))) code 1) code =
               Some (j\<lparr>access_count :=
                        Some ((case access_count j of None \<Rightarrow> 0 | Some c \<Rightarrow> c) + 1)\<rparr>)"
    using get_item_update_hit [of "table (after (get_url f code \<sigma>))" code _ 1]
    by (simp add: add_count_def)
  from d c r s x u show ?thesis by (intro conjI)
qed

theorem resolve_hit_counts_detached_witness:
  "response (get_url no_faults ''0123456789abcdef'' cached_store)
     = Redirect 301 (Some ''https://a.example/x'')
   \<and> detached (get_url no_faults ''0123456789abcdef'' cached_store) = [Update ''0123456789abcdef'' 1]
   \<and> snd (settled (no_faults\<lparr>update_fails := True\<rparr>)
             (get_url no_faults ''0123456789abcdef'' cached_store))
       = [''Error updating access count:'']
   \<and> fst (settled (no_faults\<lparr>update_fails := True\<rparr>)
             (get_url no_faults ''0123456789abcdef'' cached_store)) = cached_store
   \<and> map access_count (table (fst (settled no_faults
             (get_url no_faults ''0123456789abcdef'' cached_store)))) = [Some 4]
   \<and> map (access_count \<circ> snd) (dax (fst (settled no_faults
             (get_url no_faults ''0123456789abcdef'' cached_store)))) = [Some 1]"
proof -
  have r: "response (get_url no_faults ''0123456789abcdef'' cached_store)
     = Redirect 301 (Some ''https://a.example/x'')"
    and a: "after (get_url no_faults ''0123456789abcdef'' cached_store) = cached_store"
    by (simp_all add: get_url_eq no_faults_def cached_store_def)
  then have h: "status (response (get_url no_faults ''0123456789abcdef'' cached_store)) = 301"
    by simp
  have t: "dynamodb_update (table cached_store) ''0123456789abcdef'' 1 =
      [\<lparr>short_url = ''0123456789abcdef'', long_url = Some ''https://a.example/x'',
        ttl = Some 1900000000, created_at = Some 1868464000000, access_count = Some 4\<rparr>]"
    by (simp add: dynamodb_update_def cached_store_def get_item_def add_count_def)
  have dx: "map (access_count \<circ> snd) (dax cached_store) = [Some 1]"
    by (simp add: cached_store_def)
  from resolve_hit_counts_detached [OF h, of _ "no_faults\<lparr>update_fails := True\<rparr>"]
    resolve_hit_counts_detached [OF h, of _ no_faults]
  show ?thesis using r a t dx by (simp add: no_faults_def)
qed

end
